theory Spec2Isabelle
  imports Main "HOL-Library.AList"
begin

section \<open>Data model\<close>

text \<open>
  The embedding follows \<^verbatim>\<open>createAgentChat\<close> (src/unnamed/part_000, lines 26-413).
  Strings are lists of code units; only code units below 256 are represented.
  A \<^verbatim>\<open>UIMessage\<close> is the object \<^verbatim>\<open>{ id, role, parts }\<close>; the only part the code ever
  builds is \<^verbatim>\<open>{ type: "text", text }\<close>.
\<close>

datatype role = User | Assistant | System

datatype part = TextPart string

record UIMessage =
  msgId :: string
  role :: role
  parts :: "part list"

text \<open>
  The stream chunk (\<^verbatim>\<open>chunk\<close>, typed \<^verbatim>\<open>any\<close> in the source) is read by the code through
  three properties only: \<^verbatim>\<open>chunk.type\<close>, \<^verbatim>\<open>chunk.messageId\<close> and \<^verbatim>\<open>chunk.delta\<close>. The model
  keeps these three as strings, an absent property being the empty string (both are
  falsy, and neither equals a tag). Property values that are truthy but not strings lie
  outside the wire contract and are not represented.
\<close>

record chunk =
  ctype :: string
  cmessageId :: string
  cdelta :: string

text \<open>
  What \<^verbatim>\<open>JSON.parse\<close> returns for a chunk text: \<^verbatim>\<open>null\<close>, on which every property read
  throws a TypeError, or a value that is read through the three properties above.
\<close>

datatype json = Null | Value chunk

text \<open>
  What the catch clause of \<^verbatim>\<open>sendMessage\<close> can receive: the Error that
  \<^verbatim>\<open>controller.error\<close> was given, with its message, or the TypeError of a property read
  on \<^verbatim>\<open>null\<close>.
\<close>

datatype thrown = ErrorOf string | TypeError

text \<open>
  Modelled from the spec: the module \<^verbatim>\<open>./types\<close> (\<^verbatim>\<open>MessageType\<close>, \<^verbatim>\<open>OutgoingMessage\<close>) is not
  among the sources. Section 6 of the specification gives the wire frame: a \<^verbatim>\<open>type\<close>
  discriminator and the fields \<^verbatim>\<open>id\<close>, \<^verbatim>\<open>body\<close>, \<^verbatim>\<open>done\<close>, \<^verbatim>\<open>error\<close>, \<^verbatim>\<open>messages\<close>. The
  arguments of \<open>CF_AGENT_USE_CHAT_RESPONSE\<close> are \<^verbatim>\<open>id\<close>, \<^verbatim>\<open>body\<close> (optional), \<^verbatim>\<open>done\<close>
  and \<^verbatim>\<open>error\<close>, in this order. \<open>CF_AGENT_OTHER\<close> stands for every other type tag.
\<close>

datatype frame =
    CF_AGENT_CHAT_CLEAR
  | CF_AGENT_CHAT_MESSAGES "UIMessage list option"
  | CF_AGENT_USE_CHAT_RESPONSE string "string option" bool bool
  | CF_AGENT_OTHER

text \<open>
  Frames the client sends with \<^verbatim>\<open>agent.send(JSON.stringify(...))\<close>. The request frame
  carries the identifier, the url, and the request body built by \<^verbatim>\<open>sendMessage\<close>
  (\<^verbatim>\<open>agent.name || "default"\<close> and the message list; the trigger is constant).
\<close>

datatype outgoing =
    Send_CHAT_REQUEST_CANCEL string
  | Send_USE_CHAT_REQUEST string string string "UIMessage list"
  | Send_CHAT_CLEAR
  | Send_CHAT_MESSAGES "UIMessage list"

text \<open>
  \<^verbatim>\<open>JSON.parse\<close> belongs to the platform. It is a parameter of the model, at the two
  types the code reads its result at: a transport frame (\<^verbatim>\<open>event.data\<close>) and a stream
  chunk (\<^verbatim>\<open>data.body\<close>, or the text after \<^verbatim>\<open>data: \<close>). \<open>None\<close> is the thrown SyntaxError. For a
  transport frame \<open>None\<close> also stands for the result \<^verbatim>\<open>null\<close>: both handlers read
  \<^verbatim>\<open>data.type\<close> first, which throws on \<^verbatim>\<open>null\<close> before anything has been changed.
\<close>

record JSON =
  parseFrame :: "string \<Rightarrow> frame option"
  parseChunk :: "string \<Rightarrow> json option"

datatype status = Ready | Streaming | Error

record remoteStream =
  messageId :: string
  rtextContent :: string

text \<open>
  The closure state of \<^verbatim>\<open>createAgentChat\<close>: the store, the two signals, the set
  \<^verbatim>\<open>localRequestIds\<close>, the map \<^verbatim>\<open>remoteStreams\<close> (insertion ordered), and the log of the
  frames handed to \<^verbatim>\<open>agent.send\<close>.
\<close>

record chat =
  messages :: "UIMessage list"
  status :: status
  error :: "thrown option"
  localRequestIds :: "string set"
  remoteStreams :: "(string \<times> remoteStream) list"
  sent :: "outgoing list"

text \<open>
  The state of one \<^verbatim>\<open>aiFetch\<close> call together with its only consumer, the loop of
  \<^verbatim>\<open>sendMessage\<close>: the identifier \<^verbatim>\<open>id\<close>, the state of the ReadableStream behind
  \<^verbatim>\<open>controller\<close>, the chunks \<^verbatim>\<open>controller.enqueue\<close> accepted, whether \<^verbatim>\<open>onMessage\<close> is
  registered on the agent, whether the loop of \<^verbatim>\<open>sendMessage\<close> is still reading the
  stream, whether a chunk accepted after the loop has ended is waiting in the pipe, the
  \<^verbatim>\<open>buffer\<close> of \<^verbatim>\<open>parseSSEStream\<close>, and the two locals \<^verbatim>\<open>assistantMessageId\<close> and
  \<^verbatim>\<open>textContent\<close> of \<^verbatim>\<open>sendMessage\<close>.
\<close>

datatype streamState = Readable | Closed | Errored string

record exchange =
  xid :: string
  stream :: streamState
  enqueued :: "string list"
  listening :: bool
  reading :: bool
  pending :: bool
  buffer :: string
  assistantMessageId :: "string option"
  textContent :: string

section \<open>String helpers of the platform\<close>

text \<open>\<^verbatim>\<open>s.split("\n")\<close>: never empty; the last element is the text after the last newline.\<close>

fun split_nl :: "string \<Rightarrow> string list" where
  "split_nl [] = [[]]"
| "split_nl (c # cs) =
     (if c = CHR 0x0A then [] # split_nl cs
      else (case split_nl cs of [] \<Rightarrow> [[c]] | l # ls \<Rightarrow> (c # l) # ls))"

text \<open>\<^verbatim>\<open>s.trim()\<close> is falsy exactly when every code unit of \<open>s\<close> is white space.\<close>

definition whitespace :: "char \<Rightarrow> bool" where
  "whitespace c = (c \<in> {CHR 0x09, CHR 0x0A, CHR 0x0B, CHR 0x0C, CHR 0x0D, CHR 0x20, CHR 0xA0})"

definition blank :: "string \<Rightarrow> bool" where
  "blank s = list_all whitespace s"

section \<open>The message store updates\<close>

text \<open>Lines 76-81 and 341-346: \<^verbatim>\<open>setMessagesStore((prev) => [...prev, assistantMessage])\<close>.\<close>

definition appendAssistant :: "string \<Rightarrow> UIMessage list \<Rightarrow> UIMessage list" where
  "appendAssistant mid prev = prev @ [\<lparr>msgId = mid, role = Assistant, parts = []\<rparr>]"

text \<open>\<^verbatim>\<open>prev.findIndex(p)\<close>, with \<open>None\<close> for -1.\<close>

fun findIndex :: "('a \<Rightarrow> bool) \<Rightarrow> 'a list \<Rightarrow> nat option" where
  "findIndex P [] = None"
| "findIndex P (x # xs) = (if P x then Some 0 else map_option Suc (findIndex P xs))"

text \<open>Lines 88-99 and 351-362: the updater that replaces the parts of the first message
  with the given identifier by a single text part.\<close>

definition setText :: "string \<Rightarrow> string \<Rightarrow> UIMessage list \<Rightarrow> UIMessage list" where
  "setText mid txt prev =
     (case findIndex (\<lambda>m. msgId m = mid) prev of
        Some idx \<Rightarrow> prev[idx := (prev ! idx)\<lparr>parts := [TextPart txt]\<rparr>]
      | None \<Rightarrow> prev)"

section \<open>The stream assembler and the loop of sendMessage\<close>

text \<open>Lines 287-298: what one complete line yields.\<close>

definition yieldLine :: "JSON \<Rightarrow> string \<Rightarrow> json list" where
  "yieldLine J line =
     (if take 6 line = ''data: '' then
        (let jsonStr = drop 6 line in
         if \<not> blank jsonStr then
           (case parseChunk J jsonStr of Some v \<Rightarrow> [v] | None \<Rightarrow> [])
         else [])
      else [])"

text \<open>Lines 339-364: the body of the \<^verbatim>\<open>for await\<close> loop of \<^verbatim>\<open>sendMessage\<close>. On \<^verbatim>\<open>null\<close>
  the read of \<^verbatim>\<open>chunk.type\<close> at line 339 throws a TypeError: the result is \<open>None\<close>.
  \<^verbatim>\<open>assistantMessageId\<close> is only ever assigned a truthy value, so \<open>Some\<close> is truthy.\<close>

definition onChunk :: "json \<Rightarrow> exchange \<times> chat \<Rightarrow> (exchange \<times> chat) option" where
  "onChunk j = (\<lambda>(x, c).
     case j of
       Null \<Rightarrow> None
     | Value ch \<Rightarrow>
         Some (if ctype ch = ''start'' \<and> cmessageId ch \<noteq> [] then
                 (x\<lparr>assistantMessageId := Some (cmessageId ch)\<rparr>,
                  c\<lparr>messages := appendAssistant (cmessageId ch) (messages c)\<rparr>)
               else if ctype ch = ''text-delta'' \<and> cdelta ch \<noteq> [] then
                 (let x' = x\<lparr>textContent := textContent x @ cdelta ch\<rparr> in
                  case assistantMessageId x' of
                    Some a \<Rightarrow> (x', c\<lparr>messages := setText a (textContent x') (messages c)\<rparr>)
                  | None \<Rightarrow> (x', c))
               else (x, c)))"

text \<open>The loop over the chunks the generator yields. The loop is left at the first
  chunk on which the body throws; the state is the one reached before it, and the first
  component is what was thrown.\<close>

fun forAwait :: "json list \<Rightarrow> exchange \<times> chat \<Rightarrow> thrown option \<times> (exchange \<times> chat)" where
  "forAwait [] s = (None, s)"
| "forAwait (j # js) s =
     (case onChunk j s of None \<Rightarrow> (Some TypeError, s) | Some s' \<Rightarrow> forAwait js s')"

text \<open>Lines 368-371, the catch clause of \<^verbatim>\<open>sendMessage\<close>: the error is stored, the status is
  set to error, and the loop is over.\<close>

definition catchClause :: "thrown \<Rightarrow> exchange \<times> chat \<Rightarrow> exchange \<times> chat" where
  "catchClause e = (\<lambda>(x, c). (x\<lparr>reading := False\<rparr>, c\<lparr>error := Some e, status := Error\<rparr>))"

text \<open>Lines 280-298 for one value read from the stream: the value is appended to the
  buffer, the buffer is split, the last piece is kept, and every complete line is
  decoded; each chunk yielded runs the loop body of \<^verbatim>\<open>sendMessage\<close>, and what the body
  throws ends the generator and reaches the catch clause. The text decoder is the
  identity on the modelled strings.\<close>

definition readValue :: "JSON \<Rightarrow> string \<Rightarrow> exchange \<times> chat \<Rightarrow> exchange \<times> chat" where
  "readValue J v = (\<lambda>(x, c).
     let lines = split_nl (buffer x @ v) in
     case forAwait (concat (map (yieldLine J) (butlast lines))) (x\<lparr>buffer := last lines\<rparr>, c) of
       (None, s) \<Rightarrow> s
     | (Some e, s) \<Rightarrow> catchClause e s)"

text \<open>Lines 271-303 on their own: the chunks the generator yields while the reader
  returns the values \<open>vs\<close>, starting with the buffer \<open>buf\<close>, when the consumer takes them
  all. At end of data the loop is left and what the buffer still holds is dropped.\<close>

fun parseSSEStream :: "JSON \<Rightarrow> string \<Rightarrow> string list \<Rightarrow> json list" where
  "parseSSEStream J buf [] = []"
| "parseSSEStream J buf (v # vs) =
     (let lines = split_nl (buf @ v)
      in concat (map (yieldLine J) (butlast lines)) @ parseSSEStream J (last lines) vs)"

text \<open>Lines 338-365 over the values \<open>vs\<close> the reader returns before end of data; once the
  catch clause has run, no further value is read.\<close>

definition sendMessageLoop :: "JSON \<Rightarrow> string list \<Rightarrow> exchange \<times> chat \<Rightarrow> exchange \<times> chat" where
  "sendMessageLoop J vs s = foldl (\<lambda>s v. if reading (fst s) then readValue J v s else s) s vs"

section \<open>The ReadableStream behind the controller\<close>

text \<open>
  The stream is the platform's (WHATWG Streams). What the code relies on:
  \<^item> \<^verbatim>\<open>controller.enqueue\<close> throws a TypeError unless the stream is readable and not
    closing; a chunk it accepts reaches the reader, which here is \<^verbatim>\<open>parseSSEStream\<close>
    driven by the loop of \<^verbatim>\<open>sendMessage\<close>. The reader's reaction runs in microtasks,
    so it is complete before the next transport listener or frame runs. Once the loop
    has ended in the catch clause nothing reads the response any more: a chunk accepted
    afterwards is written into the transform and waits there for a read that never
    comes;
  \<^item> \<^verbatim>\<open>controller.close\<close> throws a TypeError unless the stream is readable and not
    closing; closing propagates through \<^verbatim>\<open>pipeThrough\<close> once every chunk accepted has been
    written, and then the transformer's \<^verbatim>\<open>flush\<close> (line 262) removes \<^verbatim>\<open>onMessage\<close>; with a
    chunk still waiting in the pipe the close never gets through and \<^verbatim>\<open>flush\<close> does not
    run. A loop that is still reading sees the end of data, ends, and line 367 sets the
    status to ready;
  \<^item> \<^verbatim>\<open>controller.error\<close> does nothing unless the stream is readable; otherwise the
    stream is errored, the pipe aborts the transform (neither \<^verbatim>\<open>flush\<close> nor the
    source's \<^verbatim>\<open>cancel\<close> runs), and for a loop that is still reading the pending read
    rejects and the catch clause of \<^verbatim>\<open>sendMessage\<close> (lines 368-371) runs.
  \<open>None\<close> is the thrown TypeError.
\<close>

definition enqueue :: "JSON \<Rightarrow> string \<Rightarrow> exchange \<times> chat \<Rightarrow> (exchange \<times> chat) option" where
  "enqueue J v = (\<lambda>(x, c).
     if stream x = Readable then
       Some (if reading x then readValue J v (x\<lparr>enqueued := enqueued x @ [v]\<rparr>, c)
             else (x\<lparr>enqueued := enqueued x @ [v], pending := True\<rparr>, c))
     else None)"

definition close :: "exchange \<times> chat \<Rightarrow> (exchange \<times> chat) option" where
  "close = (\<lambda>(x, c).
     if stream x = Readable
     then Some (x\<lparr>stream := Closed, listening := (listening x \<and> pending x), reading := False\<rparr>,
                if reading x then c\<lparr>status := Ready\<rparr> else c)
     else None)"

definition errorStream :: "string \<Rightarrow> exchange \<times> chat \<Rightarrow> exchange \<times> chat" where
  "errorStream msg = (\<lambda>(x, c).
     if stream x = Readable
     then (if reading x then catchClause (ErrorOf msg) (x\<lparr>stream := Errored msg\<rparr>, c)
           else (x\<lparr>stream := Errored msg\<rparr>, c))
     else (x, c))"

section \<open>aiFetch\<close>

text \<open>\<^verbatim>\<open>new Error(data.body).message\<close>: the body, or the empty string when it is undefined.\<close>

definition errorMessage :: "string option \<Rightarrow> string" where
  "errorMessage b = (case b of Some s \<Rightarrow> s | None \<Rightarrow> [])"

text \<open>Line 211, \<^verbatim>\<open>data.body?.trim()\<close>, as a condition.\<close>

definition bodyPresent :: "string option \<Rightarrow> bool" where
  "bodyPresent b = (case b of Some s \<Rightarrow> \<not> blank s | None \<Rightarrow> False)"

text \<open>Line 213: the template literal handed to \<^verbatim>\<open>controller.enqueue\<close>. An undefined body
  would print as \<^verbatim>\<open>undefined\<close>; the guard of line 211 never lets it get there.\<close>

definition sseText :: "string option \<Rightarrow> string" where
  "sseText b = ''data: '' @ (case b of Some s \<Rightarrow> s | None \<Rightarrow> ''undefined'') @ [CHR 0x0A, CHR 0x0A]"

text \<open>Lines 197-226, the listener \<^verbatim>\<open>onMessage\<close> of one exchange. A TypeError thrown by
  \<^verbatim>\<open>controller.enqueue\<close> is not caught: the listener stops there. The local
  \<^verbatim>\<open>abortController\<close> has no observer, so \<^verbatim>\<open>abortController.abort()\<close> has no effect.\<close>

definition onMessage :: "JSON \<Rightarrow> string \<Rightarrow> exchange \<times> chat \<Rightarrow> exchange \<times> chat" where
  "onMessage J ev = (\<lambda>(x, c).
     case parseFrame J ev of
       None \<Rightarrow> (x, c)
     | Some (CF_AGENT_USE_CHAT_RESPONSE i b d e) \<Rightarrow>
         if i = xid x then
           if e then
             (let (x1, c1) = errorStream (errorMessage b) (x, c)
              in (x1, c1\<lparr>localRequestIds := localRequestIds c1 - {xid x}\<rparr>))
           else
             (case (if bodyPresent b then enqueue J (sseText b) (x, c) else Some (x, c)) of
                None \<Rightarrow> (x, c)
              | Some (x1, c1) \<Rightarrow>
                  if d then
                    (let (x2, c2) = (case close (x1, c1) of Some r \<Rightarrow> r | None \<Rightarrow> (x1, c1))
                     in (x2, c2\<lparr>localRequestIds := localRequestIds c2 - {xid x}\<rparr>))
                  else (x1, c1))
         else (x, c)
     | Some _ \<Rightarrow> (x, c))"

text \<open>Lines 183-195, the body of the listener for the abort event of \<^verbatim>\<open>init.signal\<close>.
  The TypeError of \<^verbatim>\<open>controller.close\<close> is caught by the try statement.\<close>

definition abortListener :: "exchange \<times> chat \<Rightarrow> exchange \<times> chat" where
  "abortListener = (\<lambda>(x, c).
     let c1 = c\<lparr>sent := sent c @ [Send_CHAT_REQUEST_CANCEL (xid x)]\<rparr>;
         (x2, c2) = (case close (x, c1) of Some r \<Rightarrow> r | None \<Rightarrow> (x, c1))
     in (x2, c2\<lparr>localRequestIds := localRequestIds c2 - {xid x}\<rparr>))"

text \<open>Lines 157-269. The identifier \<^verbatim>\<open>nanoid(8)\<close> is the argument \<open>i\<close>. The call adds
  the identifier to \<^verbatim>\<open>localRequestIds\<close>, registers \<^verbatim>\<open>onMessage\<close>, sends the request frame
  and creates the stream.\<close>

definition newExchange :: "string \<Rightarrow> exchange" where
  "newExchange i = \<lparr>xid = i, stream = Readable, enqueued = [], listening = True,
     reading = True, pending = False,
     buffer = [], assistantMessageId = None, textContent = []\<rparr>"

definition aiFetch ::
  "string \<Rightarrow> string \<Rightarrow> string \<Rightarrow> UIMessage list \<Rightarrow> chat \<times> exchange list \<Rightarrow> chat \<times> exchange list" where
  "aiFetch i url name msgs = (\<lambda>(c, xs).
     (c\<lparr>localRequestIds := insert i (localRequestIds c),
        sent := sent c @ [Send_USE_CHAT_REQUEST i url name msgs]\<rparr>,
      xs @ [newExchange i]))"

section \<open>The broadcast handler\<close>

text \<open>Lines 44-109. \<^verbatim>\<open>reconcile(v, { key: "id" })\<close> leaves the store holding \<open>v\<close>. The
  inner try statement (lines 68-106) ignores the SyntaxError of \<^verbatim>\<open>JSON.parse(data.body)\<close>,
  which is also what an undefined body gives, and the TypeError of \<^verbatim>\<open>chunk.type\<close> on
  \<^verbatim>\<open>null\<close>.\<close>

definition handleServerMessage :: "JSON \<Rightarrow> string \<Rightarrow> chat \<Rightarrow> chat" where
  "handleServerMessage J ev c =
     (case parseFrame J ev of
        None \<Rightarrow> c
      | Some CF_AGENT_CHAT_CLEAR \<Rightarrow> c\<lparr>messages := []\<rparr>
      | Some (CF_AGENT_CHAT_MESSAGES ms) \<Rightarrow>
          (case ms of Some l \<Rightarrow> c\<lparr>messages := l\<rparr> | None \<Rightarrow> c)
      | Some (CF_AGENT_USE_CHAT_RESPONSE i b d e) \<Rightarrow>
          if i \<in> localRequestIds c then c
          else
            (case (case b of Some s \<Rightarrow> parseChunk J s | None \<Rightarrow> None) of
               None \<Rightarrow> c
             | Some Null \<Rightarrow> c
             | Some (Value ch) \<Rightarrow>
                 if ctype ch = ''start'' \<and> cmessageId ch \<noteq> [] then
                   c\<lparr>remoteStreams := AList.update i
                        \<lparr>messageId = cmessageId ch, rtextContent = []\<rparr> (remoteStreams c),
                      messages := appendAssistant (cmessageId ch) (messages c)\<rparr>
                 else if ctype ch = ''text-delta'' \<and> cdelta ch \<noteq> [] then
                   (case map_of (remoteStreams c) i of
                      Some s \<Rightarrow>
                        (let s' = s\<lparr>rtextContent := rtextContent s @ cdelta ch\<rparr>
                         in c\<lparr>remoteStreams := AList.update i s' (remoteStreams c),
                              messages := setText (messageId s') (rtextContent s') (messages c)\<rparr>)
                    | None \<Rightarrow> c)
                 else if ctype ch = ''finish'' \<or> d then
                   c\<lparr>remoteStreams := AList.delete i (remoteStreams c)\<rparr>
                 else c)
      | Some CF_AGENT_OTHER \<Rightarrow> c)"

section \<open>Delivery of one transport frame\<close>

text \<open>The agent calls its message listeners in registration order:
  \<^verbatim>\<open>handleServerMessage\<close> (registered at creation, lines 143-148), then the \<^verbatim>\<open>onMessage\<close>
  of every exchange that is still registered, oldest first.\<close>

fun runListeners :: "JSON \<Rightarrow> string \<Rightarrow> exchange list \<Rightarrow> chat \<Rightarrow> exchange list \<times> chat" where
  "runListeners J ev [] c = ([], c)"
| "runListeners J ev (x # xs) c =
     (let (x', c') = (if listening x then onMessage J ev (x, c) else (x, c));
          (xs', c'') = runListeners J ev xs c'
      in (x' # xs', c''))"

definition dispatch :: "JSON \<Rightarrow> string \<Rightarrow> chat \<times> exchange list \<Rightarrow> chat \<times> exchange list" where
  "dispatch J ev = (\<lambda>(c, xs).
     let (xs', c') = runListeners J ev xs (handleServerMessage J ev c) in (c', xs'))"

definition dispatchAll :: "JSON \<Rightarrow> string list \<Rightarrow> chat \<times> exchange list \<Rightarrow> chat \<times> exchange list" where
  "dispatchAll J evs s = foldl (\<lambda>s ev. dispatch J ev s) s evs"

text \<open>The abort event of \<^verbatim>\<open>init.signal\<close> of the \<open>k\<close>-th \<^verbatim>\<open>aiFetch\<close> call. Line 183 registers
  the listener only when the caller gives a signal; \<^verbatim>\<open>sendMessage\<close>, the one caller in the
  source, gives none, so \<open>abort\<close> describes a call of \<^verbatim>\<open>aiFetch\<close> that was given one.\<close>

definition abort :: "nat \<Rightarrow> chat \<times> exchange list \<Rightarrow> chat \<times> exchange list" where
  "abort k = (\<lambda>(c, xs).
     if k < length xs
     then (let (x', c') = abortListener (xs ! k, c) in (c', xs[k := x']))
     else (c, xs))"

section \<open>The public operations\<close>

text \<open>Lines 305-333, \<^verbatim>\<open>sendMessage\<close> up to the first read of the stream. The two
  \<^verbatim>\<open>nanoid\<close> results are the arguments \<open>mid\<close> (message) and \<open>i\<close> (request); \<open>url\<close> is
  \<^verbatim>\<open>getAgentUrl()\<close> and \<open>name\<close> is \<^verbatim>\<open>agent.name || "default"\<close>.\<close>

definition sendMessage ::
  "string \<Rightarrow> string \<Rightarrow> string \<Rightarrow> string \<Rightarrow> part list \<Rightarrow> chat \<times> exchange list \<Rightarrow> chat \<times> exchange list" where
  "sendMessage mid i url name ps = (\<lambda>(c, xs).
     let userMessage = \<lparr>msgId = mid, role = User, parts = ps\<rparr>;
         existingMessages = messages c;
         c1 = c\<lparr>messages := messages c @ [userMessage], status := Streaming, error := None\<rparr>
     in aiFetch i url name (existingMessages @ [userMessage]) (c1, xs))"

text \<open>Lines 374-381.\<close>

definition clearHistory :: "chat \<Rightarrow> chat" where
  "clearHistory c = c\<lparr>messages := [], sent := sent c @ [Send_CHAT_CLEAR]\<rparr>"

text \<open>Lines 383-397. The argument is a list or an updater function.\<close>

datatype messagesOrFn = Msgs "UIMessage list" | Fn "UIMessage list \<Rightarrow> UIMessage list"

definition setMessages :: "messagesOrFn \<Rightarrow> chat \<Rightarrow> chat" where
  "setMessages messagesOrFn c =
     (let c1 = (case messagesOrFn of
                  Fn f \<Rightarrow> c\<lparr>messages := f (messages c)\<rparr>
                | Msgs l \<Rightarrow> c\<lparr>messages := l\<rparr>)
      in c1\<lparr>sent := sent c1 @
           [Send_CHAT_MESSAGES (case messagesOrFn of Msgs l \<Rightarrow> l | Fn f \<Rightarrow> [])]\<rparr>)"

text \<open>The initial state of lines 31-42.\<close>

definition initialChat :: chat where
  "initialChat = \<lparr>messages = [], status = Ready, error = None, localRequestIds = {},
     remoteStreams = [], sent = []\<rparr>"

section \<open>A decoder for the examples\<close>

text \<open>The examples below need a concrete decoder in place of \<^verbatim>\<open>JSON.parse\<close>. Frames are
  written as a kind (\<open>r\<close> response, \<open>d\<close> response with done, \<open>e\<close> response with error,
  \<open>c\<close> clear), a blank, a two-letter identifier, a blank and the body. Chunks are
  written \<open>start\<close> and the message identifier, \<open>delta\<close> and the fragment, \<open>finish\<close>, or
  \<open>null\<close>. Every other text fails to decode.\<close>

definition exampleFrame :: "string \<Rightarrow> frame option" where
  "exampleFrame s =
     (if take 2 s = ''r '' then Some (CF_AGENT_USE_CHAT_RESPONSE (take 2 (drop 2 s)) (Some (drop 5 s)) False False)
      else if take 2 s = ''d '' then Some (CF_AGENT_USE_CHAT_RESPONSE (take 2 (drop 2 s)) (Some (drop 5 s)) True False)
      else if take 2 s = ''e '' then Some (CF_AGENT_USE_CHAT_RESPONSE (take 2 (drop 2 s)) (Some (drop 5 s)) False True)
      else if s = ''c'' then Some CF_AGENT_CHAT_CLEAR
      else None)"

definition exampleChunk :: "string \<Rightarrow> json option" where
  "exampleChunk s =
     (if take 6 s = ''start '' then Some (Value \<lparr>ctype = ''start'', cmessageId = drop 6 s, cdelta = []\<rparr>)
      else if take 6 s = ''delta '' then Some (Value \<lparr>ctype = ''text-delta'', cmessageId = [], cdelta = drop 6 s\<rparr>)
      else if s = ''finish'' then Some (Value \<lparr>ctype = ''finish'', cmessageId = [], cdelta = []\<rparr>)
      else if s = ''null'' then Some Null
      else None)"

definition exampleJSON :: JSON where
  "exampleJSON = \<lparr>parseFrame = exampleFrame, parseChunk = exampleChunk\<rparr>"

section \<open>Auxiliary notions\<close>

text \<open>The components of the chat state other than the message list, and the components
  of an exchange that the loop body leaves alone.\<close>

definition chatRest :: "chat \<Rightarrow> status \<times> thrown option \<times> string set \<times> (string \<times> remoteStream) list \<times> outgoing list" where
  "chatRest c = (status c, error c, localRequestIds c, remoteStreams c, sent c)"

definition exchangeRest :: "exchange \<Rightarrow> string \<times> streamState \<times> string list \<times> bool \<times> bool \<times> bool \<times> string" where
  "exchangeRest x = (xid x, stream x, enqueued x, listening x, reading x, pending x, buffer x)"

text \<open>The components that reading a value leaves alone even when the catch clause runs.\<close>

definition chatCore :: "chat \<Rightarrow> string set \<times> (string \<times> remoteStream) list \<times> outgoing list" where
  "chatCore c = (localRequestIds c, remoteStreams c, sent c)"

definition exchangeCore :: "exchange \<Rightarrow> string \<times> streamState \<times> string list \<times> bool \<times> bool" where
  "exchangeCore x = (xid x, stream x, enqueued x, listening x, pending x)"

text \<open>The chunks the reader gets out of one response frame with the body \<open>b\<close>, its buffer
  being empty: those of the text line 213 builds, when line 211 lets the body through.\<close>

definition bodyChunks :: "JSON \<Rightarrow> string option \<Rightarrow> json list" where
  "bodyChunks J b = (if bodyPresent b then parseSSEStream J [] [sseText b] else [])"


section \<open>The stream assembler is independent of the value boundaries\<close>

lemma split_nl_nonempty: "split_nl s \<noteq> []"
  by (induction s) (auto split: list.splits)

lemma split_nl_append:
  "split_nl (s @ t) = butlast (split_nl s) @ split_nl (last (split_nl s) @ t)"
proof (induction s)
  case Nil
  then show ?case by simp
next
  case (Cons c s)
  obtain l ls where L: "split_nl s = l # ls"
    using split_nl_nonempty [of s] by (cases "split_nl s") auto
  show ?case
  proof (cases "c = CHR 0x0A")
    case True
    then show ?thesis using Cons L by simp
  next
    case False
    show ?thesis
    proof (cases ls)
      case Nil
      then show ?thesis using False Cons L by simp
    next
      case (Cons l' ls')
      then show ?thesis using False Cons.IH L by simp
    qed
  qed
qed

lemma last_split_nl_no_newline: "CHR 0x0A \<notin> set (last (split_nl s))"
proof (induction s)
  case Nil
  then show ?case by simp
next
  case (Cons c s)
  obtain l ls where L: "split_nl s = l # ls"
    using split_nl_nonempty [of s] by (cases "split_nl s") auto
  show ?case using Cons L by (cases ls) auto
qed

lemma split_nl_no_newline: "CHR 0x0A \<notin> set s \<Longrightarrow> split_nl s = [s]"
  by (induction s) auto

lemma parseSSEStream_whole:
  "CHR 0x0A \<notin> set buf \<Longrightarrow>
   parseSSEStream J buf vs = concat (map (yieldLine J) (butlast (split_nl (buf @ concat vs))))"
proof (induction vs arbitrary: buf)
  case Nil
  then show ?case by (simp add: split_nl_no_newline)
next
  case (Cons v vs)
  have sp: "split_nl (buf @ concat (v # vs)) =
      butlast (split_nl (buf @ v)) @ split_nl (last (split_nl (buf @ v)) @ concat vs)"
    using split_nl_append [of "buf @ v" "concat vs"] by simp
  show ?case
    unfolding sp
    using Cons.IH [OF last_split_nl_no_newline [of "buf @ v"]]
      split_nl_nonempty [of "last (split_nl (buf @ v)) @ concat vs"]
    by (simp add: Let_def butlast_append)
qed

lemma parseSSEStream_boundaries:
  "concat vs = concat ws \<Longrightarrow> parseSSEStream J [] vs = parseSSEStream J [] ws"
  by (simp add: parseSSEStream_whole)



lemma setText_Nil [simp]: "setText m t [] = []"
  by (simp add: setText_def)

lemma setText_Cons [simp]:
  "setText m t (u # us) =
     (if msgId u = m then u\<lparr>parts := [TextPart t]\<rparr> # us else u # setText m t us)"
  by (simp add: setText_def split: option.splits)

lemma setText_setText: "setText m t2 (setText m t1 us) = setText m t2 us"
  by (induction us) auto

lemma setText_append_fresh:
  "m \<notin> msgId ` set us \<Longrightarrow>
   setText m t (us @ [u]) = us @ [if msgId u = m then u\<lparr>parts := [TextPart t]\<rparr> else u]"
  by (induction us) auto


section \<open>Transport frames and the exchanges\<close>

subsection \<open>What the reader can change\<close>

lemma onChunk_rest:
  "onChunk j s = Some s' \<Longrightarrow>
   chatRest (snd s') = chatRest (snd s) \<and> exchangeRest (fst s') = exchangeRest (fst s)"
  by (cases s)
    (auto simp: onChunk_def chatRest_def exchangeRest_def Let_def split: option.splits json.splits if_splits)

lemma forAwait_rest:
  "chatRest (snd (snd (forAwait js s))) = chatRest (snd s) \<and>
   exchangeRest (fst (snd (forAwait js s))) = exchangeRest (fst s)"
proof (induction js arbitrary: s)
  case Nil
  then show ?case by simp
next
  case (Cons j js)
  show ?case
  proof (cases "onChunk j s")
    case None
    then show ?thesis by simp
  next
    case (Some s')
    then show ?thesis using Cons [of s'] onChunk_rest [OF Some] by simp
  qed
qed


lemma readValue_core:
  "chatCore (snd (readValue J v s)) = chatCore (snd s) \<and>
   exchangeCore (fst (readValue J v s)) = exchangeCore (fst s)"
proof -
  obtain x c where s: "s = (x, c)" by (cases s)
  let ?f = "forAwait (concat (map (yieldLine J) (butlast (split_nl (buffer x @ v)))))
      (x\<lparr>buffer := last (split_nl (buffer x @ v))\<rparr>, c)"
  have r: "chatRest (snd (snd ?f)) = chatRest c"
    "exchangeRest (fst (snd ?f)) = exchangeRest (x\<lparr>buffer := last (split_nl (buffer x @ v))\<rparr>)"
    using forAwait_rest [of "concat (map (yieldLine J) (butlast (split_nl (buffer x @ v))))"
        "(x\<lparr>buffer := last (split_nl (buffer x @ v))\<rparr>, c)"] by simp_all
  obtain t x' c' where f: "?f = (t, (x', c'))" by (cases ?f) auto
  show ?thesis
    using r unfolding s f
    by (cases t)
      (simp_all add: readValue_def Let_def f catchClause_def chatRest_def chatCore_def
        exchangeRest_def exchangeCore_def)
qed


subsection \<open>The listener of one exchange\<close>

lemma onMessage_unparsable: "parseFrame J ev = None \<Longrightarrow> onMessage J ev s = s"
  by (cases s) (simp add: onMessage_def)

lemma onMessage_other_id:
  "parseFrame J ev = Some (CF_AGENT_USE_CHAT_RESPONSE i b d e) \<Longrightarrow> xid x \<noteq> i \<Longrightarrow>
   onMessage J ev (x, c) = (x, c)"
  by (auto simp: onMessage_def)


lemma onMessage_released:
  "stream x \<noteq> Readable \<Longrightarrow> xid x \<notin> localRequestIds c \<Longrightarrow> onMessage J ev (x, c) = (x, c)"
  by (auto simp: onMessage_def errorStream_def catchClause_def enqueue_def close_def
      split: option.splits frame.splits)

lemma enqueue_Some:
  assumes "enqueue J v (x, c) = Some (x1, c1)"
  shows "stream x = Readable \<and> exchangeCore x1 = exchangeCore (x\<lparr>enqueued := enqueued x @ [v],
            pending := (pending x \<or> \<not> reading x)\<rparr>) \<and> chatCore c1 = chatCore c"
proof -
  have r: "stream x = Readable" using assms by (simp add: enqueue_def split: if_splits)
  show ?thesis
  proof (cases "reading x")
    case True
    then have e: "readValue J v (x\<lparr>enqueued := enqueued x @ [v]\<rparr>, c) = (x1, c1)"
      using assms r by (simp add: enqueue_def)
    show ?thesis
      using r True readValue_core [of J v "(x\<lparr>enqueued := enqueued x @ [v]\<rparr>, c)"]
      unfolding e by (simp add: exchangeCore_def)
  next
    case False
    then show ?thesis using assms r by (auto simp: enqueue_def exchangeCore_def)
  qed
qed


subsection \<open>Delivery to the exchange listeners\<close>

lemma runListeners_unparsable: "parseFrame J ev = None \<Longrightarrow> runListeners J ev xs c = (xs, c)"
  by (induction xs arbitrary: c) (simp_all add: onMessage_unparsable)

lemma handleServerMessage_unparsable: "parseFrame J ev = None \<Longrightarrow> handleServerMessage J ev c = c"
  by (simp add: handleServerMessage_def)

lemma dispatch_unparsable: "parseFrame J ev = None \<Longrightarrow> dispatch J ev s = s"
  by (cases s) (simp add: dispatch_def runListeners_unparsable handleServerMessage_unparsable)




lemma handleServerMessage_ids: "localRequestIds (handleServerMessage J ev c) = localRequestIds c"
  by (simp add: handleServerMessage_def Let_def split: option.splits frame.splits json.splits)








section \<open>Frames that are dropped or ignored\<close>

text \<open>
  Claim C7. A frame whose text \<^verbatim>\<open>JSON.parse\<close> rejects changes nothing: the chat state
  (messages, status, error, identifiers, remote streams, frames sent) and every exchange
  are as before, so whatever frame comes next is handled as if the malformed frame had
  never arrived.
\<close>

theorem malformed_frame_dropped:
  assumes "parseFrame J ev = None"
  shows "dispatch J ev s = s \<and> dispatch J ev' (dispatch J ev s) = dispatch J ev' s"
  using assms by (simp add: dispatch_unparsable)

theorem malformed_frame_dropped_witness:
  "parseFrame exampleJSON ''{not json'' = None
   \<and> messages (fst (dispatchAll exampleJSON
        [''r x1 start a1'', ''r x1 delta Hel'', ''{not json'', ''r x1 delta lo'', ''d x1 finish'']
        (sendMessage ''u1'' ''x1'' ''/chat'' ''default'' [TextPart ''hi''] (initialChat, [])))) =
      [\<lparr>msgId = ''u1'', role = User, parts = [TextPart ''hi'']\<rparr>,
       \<lparr>msgId = ''a1'', role = Assistant, parts = [TextPart ''Hello'']\<rparr>]
   \<and> status (fst (dispatchAll exampleJSON
        [''r x1 start a1'', ''r x1 delta Hel'', ''{not json'', ''r x1 delta lo'', ''d x1 finish'']
        (sendMessage ''u1'' ''x1'' ''/chat'' ''default'' [TextPart ''hi''] (initialChat, [])))) = Ready"
proof -
  let ?s0 = "sendMessage ''u1'' ''x1'' ''/chat'' ''default'' [TextPart ''hi''] (initialChat, [])"
  let ?s2 = "dispatchAll exampleJSON [''r x1 start a1'', ''r x1 delta Hel''] ?s0"
  have p: "parseFrame exampleJSON ''{not json'' = None"
    by (simp add: exampleJSON_def exampleFrame_def)
  have drop: "dispatch exampleJSON ''{not json'' ?s2 = ?s2"
    using malformed_frame_dropped [OF p, of ?s2] by simp
  have split: "dispatchAll exampleJSON
        [''r x1 start a1'', ''r x1 delta Hel'', ''{not json'', ''r x1 delta lo'', ''d x1 finish''] ?s0 =
      dispatchAll exampleJSON [''r x1 delta lo'', ''d x1 finish''] (dispatch exampleJSON ''{not json'' ?s2)"
    by (simp add: dispatchAll_def)
  have s0: "?s0 = (\<lparr>messages = [\<lparr>msgId = ''u1'', role = User, parts = [TextPart ''hi'']\<rparr>],
        status = Streaming, error = None, localRequestIds = {''x1''}, remoteStreams = [],
        sent = [Send_USE_CHAT_REQUEST ''x1'' ''/chat'' ''default''
                  [\<lparr>msgId = ''u1'', role = User, parts = [TextPart ''hi'']\<rparr>]]\<rparr>,
      [newExchange ''x1''])"
    by (simp add: sendMessage_def aiFetch_def initialChat_def Let_def)
  have run: "fst (dispatchAll exampleJSON [''r x1 delta lo'', ''d x1 finish''] ?s2) =
     \<lparr>messages = [\<lparr>msgId = ''u1'', role = User, parts = [TextPart ''hi'']\<rparr>,
         \<lparr>msgId = ''a1'', role = Assistant, parts = [TextPart ''Hello'']\<rparr>],
        status = Ready, error = None, localRequestIds = {}, remoteStreams = [],
        sent = [Send_USE_CHAT_REQUEST ''x1'' ''/chat'' ''default''
                  [\<lparr>msgId = ''u1'', role = User, parts = [TextPart ''hi'']\<rparr>]]\<rparr>"
    unfolding s0
    by (simp add: dispatchAll_def dispatch_def handleServerMessage_def onMessage_def
        exampleJSON_def exampleFrame_def exampleChunk_def enqueue_def close_def readValue_def
        catchClause_def yieldLine_def onChunk_def appendAssistant_def newExchange_def bodyPresent_def sseText_def
        errorMessage_def blank_def whitespace_def Let_def)
  show ?thesis unfolding split drop using p run by simp
qed

text \<open>
  Claim C9. A response frame whose identifier is a member of \<^verbatim>\<open>localRequestIds\<close> leaves
  the chat state as it is when \<^verbatim>\<open>handleServerMessage\<close> handles it (line 64 returns), so
  the delivery of the frame is the work of the exchange listeners alone.
\<close>

theorem local_frame_not_rebroadcast:
  assumes "parseFrame J ev = Some (CF_AGENT_USE_CHAT_RESPONSE i b d e)"
    and "i \<in> localRequestIds c"
  shows "handleServerMessage J ev c = c
     \<and> dispatch J ev (c, xs) = (snd (runListeners J ev xs c), fst (runListeners J ev xs c))"
  using assms by (simp add: handleServerMessage_def dispatch_def case_prod_beta)

theorem local_frame_not_rebroadcast_witness:
  "parseFrame exampleJSON ''r x1 start a1'' =
      Some (CF_AGENT_USE_CHAT_RESPONSE ''x1'' (Some ''start a1'') False False)
   \<and> ''x1'' \<in> localRequestIds (initialChat\<lparr>localRequestIds := {''x1''}\<rparr>)
   \<and> handleServerMessage exampleJSON ''r x1 start a1'' (initialChat\<lparr>localRequestIds := {''x1''}\<rparr>) =
       initialChat\<lparr>localRequestIds := {''x1''}\<rparr>
   \<and> messages (fst (dispatch exampleJSON ''r x1 start a1''
        (initialChat\<lparr>localRequestIds := {''x1''}\<rparr>, [newExchange ''x1'']))) =
       [\<lparr>msgId = ''a1'', role = Assistant, parts = []\<rparr>]"
proof -
  have p: "parseFrame exampleJSON ''r x1 start a1'' =
      Some (CF_AGENT_USE_CHAT_RESPONSE ''x1'' (Some ''start a1'') False False)"
    by (simp add: exampleJSON_def exampleFrame_def)
  have m: "''x1'' \<in> localRequestIds (initialChat\<lparr>localRequestIds := {''x1''}\<rparr>)" by simp
  have r: "messages (snd (runListeners exampleJSON ''r x1 start a1'' [newExchange ''x1'']
        (initialChat\<lparr>localRequestIds := {''x1''}\<rparr>))) = [\<lparr>msgId = ''a1'', role = Assistant, parts = []\<rparr>]"
    by (simp add: onMessage_def initialChat_def
        exampleJSON_def exampleFrame_def exampleChunk_def enqueue_def close_def readValue_def
        catchClause_def yieldLine_def onChunk_def appendAssistant_def newExchange_def bodyPresent_def sseText_def
        errorMessage_def blank_def whitespace_def Let_def)
  show ?thesis
    using local_frame_not_rebroadcast [OF p m, of "[newExchange ''x1'']"] p r by simp
qed

text \<open>
  Claim C10. With an updater function \<open>f\<close>, \<^verbatim>\<open>setMessages\<close> replaces the local list by
  \<open>f\<close> applied to it, and the frame it sends carries the empty list (line 393 sends the
  argument only when it is an array). Whenever the updater's result is not empty, the
  list sent differs from the local list.
\<close>

theorem setMessages_updater_sends_empty:
  "setMessages (Fn f) c = c\<lparr>messages := f (messages c), sent := sent c @ [Send_CHAT_MESSAGES []]\<rparr>
   \<and> (f (messages c) \<noteq> [] \<longrightarrow>
        last (sent (setMessages (Fn f) c)) \<noteq> Send_CHAT_MESSAGES (messages (setMessages (Fn f) c)))"
  by (simp add: setMessages_def)

theorem setMessages_updater_sends_empty_witness:
  "(\<lambda>prev. prev @ [\<lparr>msgId = ''u1'', role = User, parts = [TextPart ''hi'']\<rparr>]) (messages initialChat) \<noteq> []
   \<and> messages (setMessages (Fn (\<lambda>prev. prev @ [\<lparr>msgId = ''u1'', role = User, parts = [TextPart ''hi'']\<rparr>])) initialChat) =
       [\<lparr>msgId = ''u1'', role = User, parts = [TextPart ''hi'']\<rparr>]
   \<and> sent (setMessages (Fn (\<lambda>prev. prev @ [\<lparr>msgId = ''u1'', role = User, parts = [TextPart ''hi'']\<rparr>])) initialChat) =
       [Send_CHAT_MESSAGES []]"
  using setMessages_updater_sends_empty
    [of "\<lambda>prev. prev @ [\<lparr>msgId = ''u1'', role = User, parts = [TextPart ''hi'']\<rparr>]" initialChat]
  by (simp add: initialChat_def)

text \<open>
  Claim C3, as stated, fails: neither start branch looks for an existing message. With a
  message \<open>a1\<close> already in the list, a start chunk for \<open>a1\<close> appends a second one, in the
  loop of \<^verbatim>\<open>sendMessage\<close> and in \<^verbatim>\<open>handleServerMessage\<close> alike.
\<close>

theorem start_duplicates_counterexample:
  "map_option (messages \<circ> snd) (onChunk (Value \<lparr>ctype = ''start'', cmessageId = ''a1'', cdelta = []\<rparr>)
      (newExchange ''x1'',
       initialChat\<lparr>messages := [\<lparr>msgId = ''a1'', role = Assistant, parts = [TextPart ''Hello'']\<rparr>]\<rparr>)) \<noteq>
     Some [\<lparr>msgId = ''a1'', role = Assistant, parts = [TextPart ''Hello'']\<rparr>]
   \<and> map_option (messages \<circ> snd) (onChunk (Value \<lparr>ctype = ''start'', cmessageId = ''a1'', cdelta = []\<rparr>)
      (newExchange ''x1'',
       initialChat\<lparr>messages := [\<lparr>msgId = ''a1'', role = Assistant, parts = [TextPart ''Hello'']\<rparr>]\<rparr>)) =
     Some [\<lparr>msgId = ''a1'', role = Assistant, parts = [TextPart ''Hello'']\<rparr>,
           \<lparr>msgId = ''a1'', role = Assistant, parts = []\<rparr>]
   \<and> messages (handleServerMessage exampleJSON ''r x9 start a1''
       (initialChat\<lparr>messages := [\<lparr>msgId = ''a1'', role = Assistant, parts = [TextPart ''Hello'']\<rparr>]\<rparr>)) =
     [\<lparr>msgId = ''a1'', role = Assistant, parts = [TextPart ''Hello'']\<rparr>,
      \<lparr>msgId = ''a1'', role = Assistant, parts = []\<rparr>]"
  by (simp add: onChunk_def handleServerMessage_def appendAssistant_def initialChat_def
      exampleJSON_def exampleFrame_def exampleChunk_def)

text \<open>
  Claim C3, amended. A start chunk with a truthy message identifier always appends one
  empty assistant message with that identifier at the end of the list, whether or not
  the identifier is already present: in the loop of \<^verbatim>\<open>sendMessage\<close>, and in
  \<^verbatim>\<open>handleServerMessage\<close> for a response frame whose identifier is not locally owned. The
  messages already in the list are kept, so an identifier that was absent occurs once
  afterwards.
\<close>

theorem start_appends:
  assumes "ctype ch = ''start''" and "cmessageId ch \<noteq> []"
  shows "onChunk (Value ch) (x, c) =
           Some (x\<lparr>assistantMessageId := Some (cmessageId ch)\<rparr>,
                 c\<lparr>messages := messages c @ [\<lparr>msgId = cmessageId ch, role = Assistant, parts = []\<rparr>]\<rparr>)
     \<and> (parseFrame J ev = Some (CF_AGENT_USE_CHAT_RESPONSE i (Some s) d e) \<and>
        i \<notin> localRequestIds c \<and> parseChunk J s = Some (Value ch) \<longrightarrow>
          messages (handleServerMessage J ev c) =
            messages c @ [\<lparr>msgId = cmessageId ch, role = Assistant, parts = []\<rparr>])
     \<and> (cmessageId ch \<notin> msgId ` set (messages c) \<longrightarrow>
          length (filter (\<lambda>u. msgId u = cmessageId ch)
            (messages (snd (the (onChunk (Value ch) (x, c)))))) = 1)"
proof -
  have one: "onChunk (Value ch) (x, c) =
           Some (x\<lparr>assistantMessageId := Some (cmessageId ch)\<rparr>,
                 c\<lparr>messages := messages c @ [\<lparr>msgId = cmessageId ch, role = Assistant, parts = []\<rparr>]\<rparr>)"
    using assms by (simp add: onChunk_def appendAssistant_def)
  have two: "parseFrame J ev = Some (CF_AGENT_USE_CHAT_RESPONSE i (Some s) d e) \<and>
        i \<notin> localRequestIds c \<and> parseChunk J s = Some (Value ch) \<longrightarrow>
          messages (handleServerMessage J ev c) =
            messages c @ [\<lparr>msgId = cmessageId ch, role = Assistant, parts = []\<rparr>]"
    using assms by (simp add: handleServerMessage_def appendAssistant_def)
  have three: "cmessageId ch \<notin> msgId ` set (messages c) \<longrightarrow>
      length (filter (\<lambda>u. msgId u = cmessageId ch)
        (messages (snd (the (onChunk (Value ch) (x, c)))))) = 1"
  proof
    assume "cmessageId ch \<notin> msgId ` set (messages c)"
    then have "filter (\<lambda>u. msgId u = cmessageId ch) (messages c) = []"
      by (auto simp: filter_empty_conv image_iff)
    then show "length (filter (\<lambda>u. msgId u = cmessageId ch)
        (messages (snd (the (onChunk (Value ch) (x, c)))))) = 1"
      unfolding one by simp
  qed
  show ?thesis using one two three by blast
qed

theorem start_appends_witness:
  "ctype \<lparr>ctype = ''start'', cmessageId = ''a1'', cdelta = []\<rparr> = ''start''
   \<and> cmessageId \<lparr>ctype = ''start'', cmessageId = ''a1'', cdelta = []\<rparr> \<noteq> []
   \<and> map_option (messages \<circ> snd) (onChunk (Value \<lparr>ctype = ''start'', cmessageId = ''a1'', cdelta = []\<rparr>)
        (newExchange ''x1'', initialChat)) = Some [\<lparr>msgId = ''a1'', role = Assistant, parts = []\<rparr>]
   \<and> messages (handleServerMessage exampleJSON ''r x9 start a1'' initialChat) =
        [\<lparr>msgId = ''a1'', role = Assistant, parts = []\<rparr>]"
proof -
  let ?ch = "\<lparr>ctype = ''start'', cmessageId = ''a1'', cdelta = []\<rparr>"
  have a: "ctype ?ch = ''start''" and b: "cmessageId ?ch \<noteq> []" by simp_all
  have p: "parseFrame exampleJSON ''r x9 start a1'' =
      Some (CF_AGENT_USE_CHAT_RESPONSE ''x9'' (Some ''start a1'') False False)"
    by (simp add: exampleJSON_def exampleFrame_def)
  have q: "parseChunk exampleJSON ''start a1'' = Some (Value ?ch)"
    by (simp add: exampleJSON_def exampleChunk_def)
  have l: "''x9'' \<notin> localRequestIds initialChat" by (simp add: initialChat_def)
  note th = start_appends [OF a b, of "newExchange ''x1''" initialChat exampleJSON
      "''r x9 start a1''" "''x9''" "''start a1''" False False]
  have m: "messages (handleServerMessage exampleJSON ''r x9 start a1'' initialChat) =
        [\<lparr>msgId = ''a1'', role = Assistant, parts = []\<rparr>]"
    using th [THEN conjunct2, THEN conjunct1] p q l by (simp add: initialChat_def)
  have o: "map_option (messages \<circ> snd) (onChunk (Value ?ch) (newExchange ''x1'', initialChat)) =
      Some [\<lparr>msgId = ''a1'', role = Assistant, parts = []\<rparr>]"
    unfolding th [THEN conjunct1] by (simp add: initialChat_def)
  show ?thesis using m o by simp
qed

lemma runListeners_released:
  assumes "i \<notin> localRequestIds c"
    and "parseFrame J ev = Some (CF_AGENT_USE_CHAT_RESPONSE i b d e)"
    and "\<forall>x\<in>set xs. xid x = i \<longrightarrow> stream x \<noteq> Readable"
  shows "runListeners J ev xs c = (xs, c)"
  using assms(3)
proof (induction xs)
  case Nil
  then show ?case by simp
next
  case (Cons x xs)
  have "onMessage J ev (x, c) = (x, c)"
  proof (cases "xid x = i")
    case True
    then show ?thesis using Cons.prems assms(1) onMessage_released [of x c J ev] by simp
  next
    case False
    then show ?thesis using onMessage_other_id [OF assms(2)] by simp
  qed
  then show ?case using Cons by simp
qed

lemma update_fresh: "k \<notin> fst ` set al \<Longrightarrow> AList.update k v al = al @ [(k, v)]"
  by (induction al) auto


lemma dispatch_unregistered:
  assumes "parseFrame J ev = Some (CF_AGENT_USE_CHAT_RESPONSE i b d e)"
    and "i \<notin> localRequestIds c"
    and "\<forall>x\<in>set xs. xid x = i \<longrightarrow> stream x \<noteq> Readable"
  shows "dispatch J ev (c, xs) = (handleServerMessage J ev c, xs)"
proof -
  have ids: "localRequestIds (handleServerMessage J ev c) = localRequestIds c"
    by (rule handleServerMessage_ids)
  have run: "runListeners J ev xs (handleServerMessage J ev c) = (xs, handleServerMessage J ev c)"
    using runListeners_released [OF _ assms(1) assms(3), of "handleServerMessage J ev c"] ids assms(2)
    by simp
  show ?thesis by (simp add: dispatch_def run)
qed

lemma dispatch_unregistered_ignored:
  assumes "parseFrame J ev = Some (CF_AGENT_USE_CHAT_RESPONSE i b d e)"
    and "i \<notin> localRequestIds c"
    and "map_of (remoteStreams c) i = None"
    and "\<forall>x\<in>set xs. xid x = i \<longrightarrow> stream x \<noteq> Readable"
    and "\<forall>s ch. b = Some s \<and> parseChunk J s = Some (Value ch) \<longrightarrow>
             \<not> (ctype ch = ''start'' \<and> cmessageId ch \<noteq> [])"
  shows "dispatch J ev (c, xs) = (c, xs)"
proof -
  have "i \<notin> fst ` set (remoteStreams c)"
    using assms(3) by (simp add: map_of_eq_None_iff)
  then have del: "AList.delete i (remoteStreams c) = remoteStreams c" by simp
  have "handleServerMessage J ev c = c"
    using assms(1-3,5) del
    by (auto simp: handleServerMessage_def split: option.splits json.splits)
  then show ?thesis using dispatch_unregistered [OF assms(1,2,4)] by simp
qed

lemma dispatch_unregistered_start:
  assumes "parseFrame J ev = Some (CF_AGENT_USE_CHAT_RESPONSE i b d e)"
    and "i \<notin> localRequestIds c"
    and "map_of (remoteStreams c) i = None"
    and "\<forall>x\<in>set xs. xid x = i \<longrightarrow> stream x \<noteq> Readable"
    and "b = Some s" and "parseChunk J s = Some (Value ch)"
    and "ctype ch = ''start''" and "cmessageId ch \<noteq> []"
  shows "dispatch J ev (c, xs) =
     (c\<lparr>remoteStreams := remoteStreams c @ [(i, \<lparr>messageId = cmessageId ch, rtextContent = []\<rparr>)],
        messages := messages c @ [\<lparr>msgId = cmessageId ch, role = Assistant, parts = []\<rparr>]\<rparr>, xs)"
proof -
  have "i \<notin> fst ` set (remoteStreams c)"
    using assms(3) by (simp add: map_of_eq_None_iff)
  then have upd: "AList.update i v (remoteStreams c) = remoteStreams c @ [(i, v)]" for v
    by (rule update_fresh)
  have "handleServerMessage J ev c =
      c\<lparr>remoteStreams := remoteStreams c @ [(i, \<lparr>messageId = cmessageId ch, rtextContent = []\<rparr>)],
        messages := messages c @ [\<lparr>msgId = cmessageId ch, role = Assistant, parts = []\<rparr>]\<rparr>"
    using assms(1,2,5-8) upd by (simp add: handleServerMessage_def appendAssistant_def)
  then show ?thesis using dispatch_unregistered [OF assms(1,2,4)] by simp
qed

text \<open>
  Claim C6, as stated, fails: a start chunk under an identifier that is neither locally
  owned nor a known remote stream is how a remote stream begins. The handler registers
  the identifier in \<^verbatim>\<open>remoteStreams\<close> and appends an assistant message.
\<close>

theorem unknown_identifier_counterexample:
  "''x9'' \<notin> localRequestIds initialChat
   \<and> map_of (remoteStreams initialChat) ''x9'' = None
   \<and> messages (fst (dispatch exampleJSON ''r x9 start a1'' (initialChat, []))) \<noteq> messages initialChat
   \<and> messages (fst (dispatch exampleJSON ''r x9 start a1'' (initialChat, []))) =
       [\<lparr>msgId = ''a1'', role = Assistant, parts = []\<rparr>]
   \<and> remoteStreams (fst (dispatch exampleJSON ''r x9 start a1'' (initialChat, []))) =
       [(''x9'', \<lparr>messageId = ''a1'', rtextContent = []\<rparr>)]"
  by (simp add: dispatch_def handleServerMessage_def appendAssistant_def initialChat_def
      exampleJSON_def exampleFrame_def exampleChunk_def)

text \<open>
  Claim C6, amended. Take a response frame whose identifier is not a member of
  \<^verbatim>\<open>localRequestIds\<close>, is not a key of \<^verbatim>\<open>remoteStreams\<close>, and is carried by no exchange whose
  stream is still readable. Unless its body decodes to a start chunk with a truthy
  message identifier, the frame changes neither the chat state nor any exchange. When
  the body is such a start chunk, the handler registers the identifier as a remote
  stream and appends an empty assistant message; the exchanges are unchanged.
\<close>

theorem unknown_identifier_ignored_unless_start:
  assumes "parseFrame J ev = Some (CF_AGENT_USE_CHAT_RESPONSE i b d e)"
    and "i \<notin> localRequestIds c"
    and "map_of (remoteStreams c) i = None"
    and "\<forall>x\<in>set xs. xid x = i \<longrightarrow> stream x \<noteq> Readable"
  shows "((\<forall>s ch. b = Some s \<and> parseChunk J s = Some (Value ch) \<longrightarrow>
             \<not> (ctype ch = ''start'' \<and> cmessageId ch \<noteq> [])) \<longrightarrow>
          dispatch J ev (c, xs) = (c, xs))
     \<and> (\<forall>s ch. b = Some s \<and> parseChunk J s = Some (Value ch) \<and> ctype ch = ''start'' \<and> cmessageId ch \<noteq> [] \<longrightarrow>
          dispatch J ev (c, xs) =
            (c\<lparr>remoteStreams := remoteStreams c @ [(i, \<lparr>messageId = cmessageId ch, rtextContent = []\<rparr>)],
               messages := messages c @ [\<lparr>msgId = cmessageId ch, role = Assistant, parts = []\<rparr>]\<rparr>, xs))"
  using dispatch_unregistered_ignored [OF assms] dispatch_unregistered_start [OF assms]
  by blast

theorem unknown_identifier_ignored_unless_start_witness:
  "parseFrame exampleJSON ''r x9 delta Hel'' =
      Some (CF_AGENT_USE_CHAT_RESPONSE ''x9'' (Some ''delta Hel'') False False)
   \<and> ''x9'' \<notin> localRequestIds (initialChat\<lparr>localRequestIds := {''x1''}\<rparr>)
   \<and> map_of (remoteStreams (initialChat\<lparr>localRequestIds := {''x1''}\<rparr>)) ''x9'' = None
   \<and> dispatch exampleJSON ''r x9 delta Hel''
        (initialChat\<lparr>localRequestIds := {''x1''}\<rparr>,
         [newExchange ''x1'', (newExchange ''x9'')\<lparr>stream := Closed, listening := False\<rparr>]) =
      (initialChat\<lparr>localRequestIds := {''x1''}\<rparr>,
       [newExchange ''x1'', (newExchange ''x9'')\<lparr>stream := Closed, listening := False\<rparr>])"
proof -
  let ?c = "initialChat\<lparr>localRequestIds := {''x1''}\<rparr>"
  let ?xs = "[newExchange ''x1'', (newExchange ''x9'')\<lparr>stream := Closed, listening := False\<rparr>]"
  have p: "parseFrame exampleJSON ''r x9 delta Hel'' =
      Some (CF_AGENT_USE_CHAT_RESPONSE ''x9'' (Some ''delta Hel'') False False)"
    by (simp add: exampleJSON_def exampleFrame_def)
  have l: "''x9'' \<notin> localRequestIds ?c" by simp
  have r: "map_of (remoteStreams ?c) ''x9'' = None" by (simp add: initialChat_def)
  have x: "\<forall>x\<in>set ?xs. xid x = ''x9'' \<longrightarrow> stream x \<noteq> Readable"
    by (simp add: newExchange_def)
  have n: "\<forall>s ch. Some ''delta Hel'' = Some s \<and> parseChunk exampleJSON s = Some (Value ch) \<longrightarrow>
             \<not> (ctype ch = ''start'' \<and> cmessageId ch \<noteq> [])"
    by (auto simp: exampleJSON_def exampleChunk_def)
  show ?thesis
    using unknown_identifier_ignored_unless_start [OF p l r x, THEN conjunct1] n p l r by blast
qed

section \<open>Cancellation and the exits of an exchange\<close>






lemma onMessage_done:
  assumes "parseFrame J ev = Some (CF_AGENT_USE_CHAT_RESPONSE (xid x) b True False)"
    and "stream x = Readable"
  shows "stream (fst (onMessage J ev (x, c))) = Closed
     \<and> xid (fst (onMessage J ev (x, c))) = xid x
     \<and> localRequestIds (snd (onMessage J ev (x, c))) = localRequestIds c - {xid x}"
proof -
  obtain x1 c1 where e: "(if bodyPresent b then enqueue J (sseText b) (x, c) else Some (x, c)) = Some (x1, c1)"
    using assms(2) by (cases "bodyPresent b") (auto simp: enqueue_def intro: prod.exhaust)
  have r: "stream x1 = Readable" "xid x1 = xid x" "localRequestIds c1 = localRequestIds c"
    using e assms(2) enqueue_Some [of J "sseText b" x c x1 c1]
    by (auto simp: exchangeCore_def chatCore_def split: if_splits)
  show ?thesis
    using assms(1) e r by (simp add: onMessage_def close_def)
qed


lemma abortListener_not_readable:
  "stream x \<noteq> Readable \<Longrightarrow>
   abortListener (x, c) =
     (x, c\<lparr>sent := sent c @ [Send_CHAT_REQUEST_CANCEL (xid x)],
            localRequestIds := localRequestIds c - {xid x}\<rparr>)"
  by (simp add: abortListener_def close_def)

lemma abortListener_result:
  "stream (fst (abortListener (x, c))) \<noteq> Readable
   \<and> xid (fst (abortListener (x, c))) = xid x
   \<and> localRequestIds (snd (abortListener (x, c))) - {xid x} = localRequestIds (snd (abortListener (x, c)))"
  by (cases "stream x = Readable") (auto simp: abortListener_def close_def Let_def)

lemma aiFetch_adds_one_listener:
  "length (filter listening (snd (aiFetch i url name msgs (c, xs)))) =
     Suc (length (filter listening xs))"
  by (simp add: aiFetch_def newExchange_def)

text \<open>
  Claim C4. Running the abort listener a second time gives the state the first run
  left, and so does running it after the exchange has ended with a done frame: the
  exchange (stream, chunks accepted, listener registration, reader) and the chat state
  (messages, status, error, \<^verbatim>\<open>localRequestIds\<close>, \<^verbatim>\<open>remoteStreams\<close>) are unchanged. The only
  trace is one more cancel frame handed to \<^verbatim>\<open>agent.send\<close>. The listener has no error
  result: its one throwing call, \<^verbatim>\<open>controller.close()\<close>, is inside a try statement.
\<close>

theorem cancel_idempotent:
  "abortListener (abortListener (x, c)) =
     (fst (abortListener (x, c)),
      (snd (abortListener (x, c)))\<lparr>sent := sent (snd (abortListener (x, c))) @
         [Send_CHAT_REQUEST_CANCEL (xid x)]\<rparr>)
   \<and> (parseFrame J ev = Some (CF_AGENT_USE_CHAT_RESPONSE (xid x) b True False) \<and>
       stream x = Readable \<longrightarrow>
       abortListener (onMessage J ev (x, c)) =
         (fst (onMessage J ev (x, c)),
          (snd (onMessage J ev (x, c)))\<lparr>sent := sent (snd (onMessage J ev (x, c))) @
             [Send_CHAT_REQUEST_CANCEL (xid x)]\<rparr>))"
proof -
  have twice: "abortListener (abortListener (x, c)) =
     (fst (abortListener (x, c)),
      (snd (abortListener (x, c)))\<lparr>sent := sent (snd (abortListener (x, c))) @
         [Send_CHAT_REQUEST_CANCEL (xid x)]\<rparr>)"
  proof -
    let ?x = "fst (abortListener (x, c))" and ?c = "snd (abortListener (x, c))"
    have d: "stream ?x \<noteq> Readable" "xid ?x = xid x" "localRequestIds ?c - {xid x} = localRequestIds ?c"
      using abortListener_result [of x c] by auto
    have "abortListener (?x, ?c) =
       (?x, ?c\<lparr>sent := sent ?c @ [Send_CHAT_REQUEST_CANCEL (xid ?x)],
               localRequestIds := localRequestIds ?c - {xid ?x}\<rparr>)"
      using d(1) by (rule abortListener_not_readable)
    then show ?thesis using d by simp
  qed
  have after: "abortListener (onMessage J ev (x, c)) =
         (fst (onMessage J ev (x, c)),
          (snd (onMessage J ev (x, c)))\<lparr>sent := sent (snd (onMessage J ev (x, c))) @
             [Send_CHAT_REQUEST_CANCEL (xid x)]\<rparr>)"
    if p: "parseFrame J ev = Some (CF_AGENT_USE_CHAT_RESPONSE (xid x) b True False)"
      and r: "stream x = Readable"
  proof -
    let ?x = "fst (onMessage J ev (x, c))" and ?c = "snd (onMessage J ev (x, c))"
    have d: "stream ?x \<noteq> Readable" "xid ?x = xid x" "localRequestIds ?c - {xid x} = localRequestIds ?c"
      using onMessage_done [OF p r, of c] by auto
    have "abortListener (?x, ?c) =
       (?x, ?c\<lparr>sent := sent ?c @ [Send_CHAT_REQUEST_CANCEL (xid ?x)],
               localRequestIds := localRequestIds ?c - {xid ?x}\<rparr>)"
      using d(1) by (rule abortListener_not_readable)
    then show ?thesis using d by simp
  qed
  show ?thesis using twice after by blast
qed

theorem cancel_idempotent_witness:
  "parseFrame exampleJSON ''d x1 finish'' =
      Some (CF_AGENT_USE_CHAT_RESPONSE (xid (newExchange ''x1'')) (Some ''finish'') True False)
   \<and> stream (newExchange ''x1'') = Readable
   \<and> abortListener (onMessage exampleJSON ''d x1 finish''
        (newExchange ''x1'', initialChat\<lparr>localRequestIds := {''x1''}, status := Streaming\<rparr>)) =
      ((newExchange ''x1'')\<lparr>stream := Closed, listening := False, reading := False,
          enqueued := [''data: finish\<newline>\<newline>'']\<rparr>,
       initialChat\<lparr>sent := [Send_CHAT_REQUEST_CANCEL ''x1'']\<rparr>)"
proof -
  let ?c = "initialChat\<lparr>localRequestIds := {''x1''}, status := Streaming\<rparr>"
  have p: "parseFrame exampleJSON ''d x1 finish'' =
      Some (CF_AGENT_USE_CHAT_RESPONSE (xid (newExchange ''x1'')) (Some ''finish'') True False)"
    by (simp add: exampleJSON_def exampleFrame_def newExchange_def)
  have r: "stream (newExchange ''x1'') = Readable" by (simp add: newExchange_def)
  have o: "onMessage exampleJSON ''d x1 finish'' (newExchange ''x1'', ?c) =
      ((newExchange ''x1'')\<lparr>stream := Closed, listening := False, reading := False,
          enqueued := [''data: finish\<newline>\<newline>'']\<rparr>,
       initialChat)"
    by (simp add: onMessage_def initialChat_def
        exampleJSON_def exampleFrame_def exampleChunk_def enqueue_def close_def readValue_def
        catchClause_def yieldLine_def onChunk_def newExchange_def bodyPresent_def sseText_def
        errorMessage_def blank_def whitespace_def Let_def)
  show ?thesis
    using cancel_idempotent [of "newExchange ''x1''" ?c exampleJSON "''d x1 finish''" "Some ''finish''",
        THEN conjunct2] p r
    unfolding o by (simp add: newExchange_def initialChat_def)
qed

text \<open>
  Claim C5 at its failing input. An exchange is started and the far end answers with an
  error frame: the stream is errored and \<^verbatim>\<open>onMessage\<close> stays registered, since the only
  two calls of \<^verbatim>\<open>removeEventListener\<close> for it sit in the \<^verbatim>\<open>cancel\<close> callback of the source
  and in the \<^verbatim>\<open>flush\<close> callback of the transform, and an errored stream runs neither.
  The done frame and the abort listener, which close the stream, do remove it.
\<close>

theorem error_frame_keeps_listener:
  "map listening (snd (dispatch exampleJSON ''e x1 boom''
      (sendMessage ''u1'' ''x1'' ''/chat'' ''default'' [TextPart ''hi''] (initialChat, [])))) = [True]
   \<and> map stream (snd (dispatch exampleJSON ''e x1 boom''
      (sendMessage ''u1'' ''x1'' ''/chat'' ''default'' [TextPart ''hi''] (initialChat, [])))) = [Errored ''boom'']
   \<and> map listening (snd (dispatch exampleJSON ''d x1 finish''
      (sendMessage ''u1'' ''x1'' ''/chat'' ''default'' [TextPart ''hi''] (initialChat, [])))) = [False]
   \<and> map listening (snd (abort 0
      (sendMessage ''u1'' ''x1'' ''/chat'' ''default'' [TextPart ''hi''] (initialChat, [])))) = [False]"
  by (simp add: dispatch_def handleServerMessage_def onMessage_def abort_def abortListener_def
      sendMessage_def aiFetch_def initialChat_def errorStream_def
      exampleJSON_def exampleFrame_def exampleChunk_def enqueue_def close_def readValue_def
      catchClause_def yieldLine_def onChunk_def newExchange_def bodyPresent_def sseText_def
      errorMessage_def blank_def whitespace_def Let_def)

section \<open>An error frame and the message sent after it\<close>




lemma bodyChunks_readValue:
  assumes "bodyPresent b"
  shows "parseSSEStream J [] [sseText b] = bodyChunks J b"
  using assms by (simp add: bodyChunks_def)






text \<open>A chunk that is \<^verbatim>\<open>null\<close> ends the loop of \<^verbatim>\<open>sendMessage\<close> in its catch clause: the
  status is error, the error is the TypeError, and the deltas that follow are not
  applied.\<close>

lemma null_chunk_ends_loop:
  "status (fst (dispatchAll exampleJSON [''r x1 start a1'', ''r x1 null'', ''r x1 delta Hel'']
      (sendMessage ''u1'' ''x1'' ''/chat'' ''default'' [TextPart ''hi''] (initialChat, [])))) = Error
   \<and> error (fst (dispatchAll exampleJSON [''r x1 start a1'', ''r x1 null'', ''r x1 delta Hel'']
      (sendMessage ''u1'' ''x1'' ''/chat'' ''default'' [TextPart ''hi''] (initialChat, [])))) = Some TypeError
   \<and> messages (fst (dispatchAll exampleJSON [''r x1 start a1'', ''r x1 null'', ''r x1 delta Hel'']
      (sendMessage ''u1'' ''x1'' ''/chat'' ''default'' [TextPart ''hi''] (initialChat, [])))) =
     [\<lparr>msgId = ''u1'', role = User, parts = [TextPart ''hi'']\<rparr>,
      \<lparr>msgId = ''a1'', role = Assistant, parts = []\<rparr>]"
  by (simp add: dispatchAll_def dispatch_def handleServerMessage_def onMessage_def
      sendMessage_def aiFetch_def initialChat_def
      exampleJSON_def exampleFrame_def exampleChunk_def enqueue_def close_def readValue_def
      catchClause_def yieldLine_def onChunk_def appendAssistant_def newExchange_def bodyPresent_def
      sseText_def errorMessage_def blank_def whitespace_def Let_def)



section \<open>A second start on the same exchange\<close>

text \<open>
  Claim C1 at its failing input. \<^verbatim>\<open>textContent\<close> is declared once per \<^verbatim>\<open>sendMessage\<close> (line
  336) and the start branch (lines 339-346) does not reset it, so on the chunks start
  \<open>a1\<close>, delta \<open>X\<close>, start \<open>a2\<close>, delta \<open>Y\<close> the message \<open>a2\<close> is given the text \<open>XY\<close>, though
  the only fragment for \<open>a2\<close> is \<open>Y\<close>: first for the frames of a local exchange, then for
  the loop on its own with the same text cut at other places. The broadcast handler,
  which starts every remote stream with an empty text (lines 72-75), gives \<open>a2\<close> the text
  \<open>Y\<close> on the same chunks. Last, a delta that arrives before the start is kept in
  \<^verbatim>\<open>textContent\<close> as well and ends up in the message.
\<close>

theorem second_start_keeps_text:
  "messages (fst (dispatchAll exampleJSON
      [''r x1 start a1'', ''r x1 delta X'', ''r x1 start a2'', ''r x1 delta Y'']
      (sendMessage ''u1'' ''x1'' ''/chat'' ''default'' [TextPart ''hi''] (initialChat, [])))) =
     [\<lparr>msgId = ''u1'', role = User, parts = [TextPart ''hi'']\<rparr>,
      \<lparr>msgId = ''a1'', role = Assistant, parts = [TextPart ''X'']\<rparr>,
      \<lparr>msgId = ''a2'', role = Assistant, parts = [TextPart ''XY'']\<rparr>]
   \<and> messages (snd (sendMessageLoop exampleJSON
      [''data: start a1\<newline>\<newline>data: del'', ''ta X\<newline>\<newline>data: start a2\<newline>'', ''\<newline>data: delta Y\<newline>\<newline>'']
      (newExchange ''x1'', initialChat))) =
     [\<lparr>msgId = ''a1'', role = Assistant, parts = [TextPart ''X'']\<rparr>,
      \<lparr>msgId = ''a2'', role = Assistant, parts = [TextPart ''XY'']\<rparr>]
   \<and> messages (fst (dispatchAll exampleJSON
      [''r x9 start a1'', ''r x9 delta X'', ''r x9 start a2'', ''r x9 delta Y'']
      (initialChat, []))) =
     [\<lparr>msgId = ''a1'', role = Assistant, parts = [TextPart ''X'']\<rparr>,
      \<lparr>msgId = ''a2'', role = Assistant, parts = [TextPart ''Y'']\<rparr>]
   \<and> messages (fst (dispatchAll exampleJSON
      [''r x1 delta X'', ''r x1 start a1'', ''r x1 delta Y'']
      (sendMessage ''u1'' ''x1'' ''/chat'' ''default'' [TextPart ''hi''] (initialChat, [])))) =
     [\<lparr>msgId = ''u1'', role = User, parts = [TextPart ''hi'']\<rparr>,
      \<lparr>msgId = ''a1'', role = Assistant, parts = [TextPart ''XY'']\<rparr>]"
  by (simp add: dispatchAll_def dispatch_def handleServerMessage_def onMessage_def
      sendMessage_def sendMessageLoop_def aiFetch_def initialChat_def
      exampleJSON_def exampleFrame_def exampleChunk_def enqueue_def close_def readValue_def
      catchClause_def yieldLine_def onChunk_def appendAssistant_def newExchange_def bodyPresent_def
      sseText_def errorMessage_def blank_def whitespace_def Let_def)

end
